theory Spec2Isabelle
  imports Main "HOL-Library.Word"
begin

section \<open>sage\_lock: the volume-key gesture detector\<close>

text \<open>
  A shallow embedding of the gesture core of \<^verbatim>\<open>sage_lock.cpp\<close>: the globals that track
  volume events (lines 49--54), \<^verbatim>\<open>CheckForVolumeUpDownUpDown\<close> (57--63),
  \<^verbatim>\<open>GetAvailableKbdHistoryIndex\<close> (67--81), \<^verbatim>\<open>SoundEffect\<close> (170--174) and
  \<^verbatim>\<open>SetKbdHistoryIndex\<close> (176--187).

  The globals become one record that every function takes and returns. Machine integers
  keep their width: \<^verbatim>\<open>DWORD\<close> is a 32-bit word, \<^verbatim>\<open>WORD\<close> a 16-bit word, \<^verbatim>\<open>DWORD64\<close> a
  64-bit word, so \<^verbatim>\<open>Current_Index++\<close> and the subtraction of two tick counts wrap around
  as they do in C++. \<^verbatim>\<open>lock_enabled\<close> is an \<^verbatim>\<open>int\<close> that only ever holds 0 or 1 and is
  never added to, so it is a HOL \<open>int\<close>. Wide strings are HOL strings.
\<close>

subsection \<open>Data\<close>

type_synonym DWORD = "32 word"
type_synonym WORD = "16 word"
type_synonym DWORD64 = "64 word"

text \<open>
  Modelled from the spec: the two direction tags \<open>VOLUME_UP\<close> and \<open>VOLUME_DOWN\<close> of a Key
  Event. The source names them by the macros \<^verbatim>\<open>VK_VOLUME_UP\<close> and \<^verbatim>\<open>VK_VOLUME_DOWN\<close> of
  \<^verbatim>\<open>Windows.h\<close>, which is not part of the repository; the values below are the virtual-key
  codes that header assigns (\<^verbatim>\<open>0xAF\<close> and \<^verbatim>\<open>0xAE\<close>).
\<close>

definition VK_VOLUME_UP :: DWORD where
  "VK_VOLUME_UP = 0xAF"

definition VK_VOLUME_DOWN :: DWORD where
  "VK_VOLUME_DOWN = 0xAE"

text \<open>
  The globals of lines 50--54. \<^verbatim>\<open>Volume_Event_History\<close> is a \<^verbatim>\<open>std::array<DWORD, 4>\<close>: a list
  whose length is 4 in every state the program can be in (\<open>wf_state\<close> below).
\<close>

record state =
  Volume_Event_History :: "DWORD list"
  Current_Index :: WORD
  Last_Volume_Event :: DWORD64
  lock_enabled :: int
  g_TouchScreens :: "string list"

definition wf_state :: "state \<Rightarrow> bool" where
  "wf_state s = (length (Volume_Event_History s) = 4)"

text \<open>
  The state at the start of the input thread: the globals as initialised at lines 50--53
  (the array value-initialised to zeros), and the registry as \<^verbatim>\<open>GetTouchScreens\<close> filled it.
\<close>

definition initial_state :: "string list \<Rightarrow> state" where
  "initial_state screens =
     \<lparr>Volume_Event_History = [0, 0, 0, 0],
      Current_Index = 0,
      Last_Volume_Event = 0,
      lock_enabled = 0,
      g_TouchScreens = screens\<rparr>"

text \<open>
  What the core asks of its collaborators: a call of \<^verbatim>\<open>ToggleTouchDevice(deviceId, enable)\<close>
  (lines 84--103) or of \<^verbatim>\<open>SoundEffect(enable)\<close> (lines 170--174), recorded with its arguments
  in the order the calls are made.
\<close>

datatype request =
  ToggleTouchDevice string bool
| SoundEffect bool

text \<open>Line 86: the \<^verbatim>\<open>pnputil.exe\<close> option that \<^verbatim>\<open>ToggleTouchDevice\<close> selects from its flag.\<close>

definition ToggleTouchDevice_option :: "bool \<Rightarrow> string" where
  "ToggleTouchDevice_option enable = (if enable then ''/enable-device'' else ''/disable-device'')"

text \<open>
  Line 172: the file that \<^verbatim>\<open>SoundEffect\<close> plays for its flag. Both files are in the
  directory \<open>Media\<close> of the directory \<open>Windows\<close> on drive \<open>C:\<close>; the separator is the
  backslash, the character \<open>0x5C\<close>.
\<close>

definition Media_path :: string where
  "Media_path = ''C:'' @ CHR 0x5C # ''Windows'' @ CHR 0x5C # ''Media'' @ [CHR 0x5C]"

definition SoundEffect_soundFile :: "bool \<Rightarrow> string" where
  "SoundEffect_soundFile enable =
     (if enable then Media_path @ ''Speech On.wav''
      else Media_path @ ''Speech Off.wav'')"

subsection \<open>Operations\<close>

text \<open>
  Lines 57--63. The cursor is reset before the four slots are compared, whatever the
  comparison gives.
\<close>

definition CheckForVolumeUpDownUpDown :: "state \<Rightarrow> bool \<times> state" where
  "CheckForVolumeUpDownUpDown s =
     (let s1 = s\<lparr>Current_Index := 0\<rparr>
      in (Volume_Event_History s1 ! 0 = VK_VOLUME_UP \<and>
          Volume_Event_History s1 ! 1 = VK_VOLUME_DOWN \<and>
          Volume_Event_History s1 ! 2 = VK_VOLUME_UP \<and>
          Volume_Event_History s1 ! 3 = VK_VOLUME_DOWN, s1))"

text \<open>
  Lines 67--81. The reading of \<^verbatim>\<open>GetTickCount64()\<close> is the argument \<open>dwCurrentTime\<close>. The
  subtraction and the comparison with 500 are unsigned 64-bit; \<^verbatim>\<open>Current_Index++\<close> is a
  16-bit increment.
\<close>

definition GetAvailableKbdHistoryIndex :: "DWORD64 \<Rightarrow> state \<Rightarrow> WORD \<times> state" where
  "GetAvailableKbdHistoryIndex dwCurrentTime s =
     (let timeSinceLast = dwCurrentTime - Last_Volume_Event s;
          s1 = s\<lparr>Last_Volume_Event := dwCurrentTime\<rparr>;
          s2 = (if timeSinceLast > 500 then s1\<lparr>Current_Index := 0\<rparr>
                else s1\<lparr>Current_Index := Current_Index s1 + 1\<rparr>);
          s3 = (if Current_Index s2 > 3 then s2\<lparr>Current_Index := 0\<rparr> else s2)
      in (Current_Index s3, s3))"

text \<open>
  Lines 176--187. The write at line 178 is a list update at the returned index, which is
  at most 3 (lemma \<open>GetAvailableKbdHistoryIndex_le_3\<close>), so it is inside the array in
  every well-formed state. \<^verbatim>\<open>&&\<close> evaluates \<^verbatim>\<open>CheckForVolumeUpDownUpDown()\<close> only when
  \<^verbatim>\<open>i == 3\<close>. \<^verbatim>\<open>!lock_enabled\<close> is the test \<open>lock_enabled = 0\<close>, stored back as 1 or 0.
  The function returns the new state and the requests it made, in order.
\<close>

definition SetKbdHistoryIndex :: "DWORD64 \<Rightarrow> DWORD \<Rightarrow> state \<Rightarrow> state \<times> request list" where
  "SetKbdHistoryIndex dwCurrentTime vkKey s =
     (let (i, s1) = GetAvailableKbdHistoryIndex dwCurrentTime s;
          s2 = s1\<lparr>Volume_Event_History := (Volume_Event_History s1)[unat i := vkKey]\<rparr>
      in if i = 3 then
           (let (matched, s3) = CheckForVolumeUpDownUpDown s2
            in if matched then
                 (let s4 = s3\<lparr>lock_enabled := (if lock_enabled s3 = 0 then 1 else 0)\<rparr>
                  in (s4, map (\<lambda>screen. ToggleTouchDevice screen (lock_enabled s4 = 0))
                              (g_TouchScreens s4)
                          @ [SoundEffect (lock_enabled s4 = 0)]))
               else (s3, []))
         else (s2, []))"

subsection \<open>Sequences of accepted events\<close>

text \<open>
  The window procedure (lines 189--205) calls \<^verbatim>\<open>SetKbdHistoryIndex\<close> once for every key-down
  of one of the two volume keys, on a single thread. An accepted event is the tick count
  read while it is handled, and its key. \<open>process_events\<close> handles a list of them in order and
  collects the requests; \<open>slots_written\<close> lists the index that
  \<^verbatim>\<open>GetAvailableKbdHistoryIndex\<close> returned for each of them.
\<close>

type_synonym event = "DWORD64 \<times> DWORD"

fun process_events :: "event list \<Rightarrow> state \<Rightarrow> state \<times> request list" where
  "process_events [] s = (s, [])"
| "process_events (e # es) s =
     (let (s1, reqs1) = SetKbdHistoryIndex (fst e) (snd e) s;
          (s2, reqs2) = process_events es s1
      in (s2, reqs1 @ reqs2))"

fun slots_written :: "event list \<Rightarrow> state \<Rightarrow> WORD list" where
  "slots_written [] s = []"
| "slots_written (e # es) s =
     fst (GetAvailableKbdHistoryIndex (fst e) s)
       # slots_written es (fst (SetKbdHistoryIndex (fst e) (snd e) s))"

section \<open>Properties\<close>

subsection \<open>The two steps of one event\<close>

lemma GetAvailableKbdHistoryIndex_le_3:
  "fst (GetAvailableKbdHistoryIndex dwCurrentTime s) \<le> 3"
  by (simp add: GetAvailableKbdHistoryIndex_def Let_def not_less)

lemma GetAvailableKbdHistoryIndex_returns_cursor:
  "Current_Index (snd (GetAvailableKbdHistoryIndex dwCurrentTime s))
     = fst (GetAvailableKbdHistoryIndex dwCurrentTime s)"
  by (simp add: GetAvailableKbdHistoryIndex_def Let_def)

lemma GetAvailableKbdHistoryIndex_frame:
  "Volume_Event_History (snd (GetAvailableKbdHistoryIndex dwCurrentTime s)) = Volume_Event_History s"
  "lock_enabled (snd (GetAvailableKbdHistoryIndex dwCurrentTime s)) = lock_enabled s"
  "g_TouchScreens (snd (GetAvailableKbdHistoryIndex dwCurrentTime s)) = g_TouchScreens s"
  "Last_Volume_Event (snd (GetAvailableKbdHistoryIndex dwCurrentTime s)) = dwCurrentTime"
  by (simp_all add: GetAvailableKbdHistoryIndex_def Let_def)

lemma SetKbdHistoryIndex_history:
  "Volume_Event_History (fst (SetKbdHistoryIndex dwCurrentTime vkKey s))
     = (Volume_Event_History s)[unat (fst (GetAvailableKbdHistoryIndex dwCurrentTime s)) := vkKey]"
  by (simp add: SetKbdHistoryIndex_def CheckForVolumeUpDownUpDown_def Let_def
      split_beta GetAvailableKbdHistoryIndex_frame)

lemma SetKbdHistoryIndex_time:
  "Last_Volume_Event (fst (SetKbdHistoryIndex dwCurrentTime vkKey s)) = dwCurrentTime"
  by (simp add: SetKbdHistoryIndex_def CheckForVolumeUpDownUpDown_def Let_def
      split_beta GetAvailableKbdHistoryIndex_frame)

lemma SetKbdHistoryIndex_registry:
  "g_TouchScreens (fst (SetKbdHistoryIndex dwCurrentTime vkKey s)) = g_TouchScreens s"
  by (simp add: SetKbdHistoryIndex_def CheckForVolumeUpDownUpDown_def Let_def
      split_beta GetAvailableKbdHistoryIndex_frame)

lemma SetKbdHistoryIndex_cursor:
  "Current_Index (fst (SetKbdHistoryIndex dwCurrentTime vkKey s))
     = (if fst (GetAvailableKbdHistoryIndex dwCurrentTime s) = 3 then 0
        else fst (GetAvailableKbdHistoryIndex dwCurrentTime s))"
  by (simp add: SetKbdHistoryIndex_def CheckForVolumeUpDownUpDown_def Let_def
      split_beta GetAvailableKbdHistoryIndex_returns_cursor)

lemma SetKbdHistoryIndex_wf:
  "wf_state s \<Longrightarrow> wf_state (fst (SetKbdHistoryIndex dwCurrentTime vkKey s))"
  by (simp add: wf_state_def SetKbdHistoryIndex_history)

lemma initial_state_wf: "wf_state (initial_state screens)"
  by (simp add: wf_state_def initial_state_def)

lemma process_events_wf: "wf_state s \<Longrightarrow> wf_state (fst (process_events es s))"
proof (induction es arbitrary: s)
  case Nil
  then show ?case by simp
next
  case (Cons e es)
  from Cons.prems have "wf_state (fst (SetKbdHistoryIndex (fst e) (snd e) s))"
    by (rule SetKbdHistoryIndex_wf)
  from Cons.IH [OF this] show ?case
    by (simp add: split_beta Let_def)
qed

lemma SetKbdHistoryIndex_cursor_le_3:
  "Current_Index (fst (SetKbdHistoryIndex dwCurrentTime vkKey s)) \<le> 3"
  by (simp add: SetKbdHistoryIndex_cursor GetAvailableKbdHistoryIndex_le_3)

lemma process_events_cursor_le_3:
  "Current_Index s \<le> 3 \<Longrightarrow> Current_Index (fst (process_events es s)) \<le> 3"
proof (induction es arbitrary: s)
  case Nil
  then show ?case by simp
next
  case (Cons e es)
  have "Current_Index (fst (SetKbdHistoryIndex (fst e) (snd e) s)) \<le> 3"
    by (rule SetKbdHistoryIndex_cursor_le_3)
  from Cons.IH [OF this] show ?case
    by (simp add: split_beta Let_def)
qed

lemma increment_then_wrap:
  "(if (c :: WORD) + 1 > 3 then 0 else c + 1) = (if 3 < unat c + 1 then 0 else c + 1)"
proof (cases "c + 1 = 0")
  case True
  then show ?thesis by simp
next
  case False
  then have "unat (c + 1) = Suc (unat c)"
    using unatSuc [of c] by (simp add: add.commute)
  then show ?thesis
    by (simp add: word_less_nat_alt)
qed

lemma list4_eq:
  assumes "length xs = 4"
  shows "(xs = [a, b, c, d]) = (xs ! 0 = a \<and> xs ! 1 = b \<and> xs ! 2 = c \<and> xs ! 3 = d)"
proof -
  from assms obtain w x y z where "xs = [w, x, y, z]"
    by (auto simp: length_Suc_conv numeral_eq_Suc)
  then show ?thesis by simp
qed

subsection \<open>The matcher\<close>

text \<open>
  C8: every call of \<^verbatim>\<open>CheckForVolumeUpDownUpDown\<close> leaves the state as it was except for
  the write cursor, which is 0 afterwards whether or not the buffer holds the pattern: the
  buffer, the time of the last event, the lock state and the registry are untouched. Its
  result is the comparison of the four slots with UP, DOWN, UP, DOWN.
\<close>

theorem CheckForVolumeUpDownUpDown_resets_cursor_only:
  "snd (CheckForVolumeUpDownUpDown s) = s\<lparr>Current_Index := 0\<rparr>
   \<and> Current_Index (snd (CheckForVolumeUpDownUpDown s)) = 0
   \<and> Volume_Event_History (snd (CheckForVolumeUpDownUpDown s)) = Volume_Event_History s
   \<and> Last_Volume_Event (snd (CheckForVolumeUpDownUpDown s)) = Last_Volume_Event s
   \<and> lock_enabled (snd (CheckForVolumeUpDownUpDown s)) = lock_enabled s
   \<and> g_TouchScreens (snd (CheckForVolumeUpDownUpDown s)) = g_TouchScreens s
   \<and> fst (CheckForVolumeUpDownUpDown s)
       = (Volume_Event_History s ! 0 = VK_VOLUME_UP \<and> Volume_Event_History s ! 1 = VK_VOLUME_DOWN
          \<and> Volume_Event_History s ! 2 = VK_VOLUME_UP \<and> Volume_Event_History s ! 3 = VK_VOLUME_DOWN)"
  by (simp add: CheckForVolumeUpDownUpDown_def Let_def)

subsection \<open>The range of the cursor\<close>

text \<open>
  C7: the write cursor is between 0 and 3 after every operation of the core. It is 0 in the
  initial state, at most 3 after \<^verbatim>\<open>GetAvailableKbdHistoryIndex\<close> (from any state, by the test
  at line 77), 0 after \<^verbatim>\<open>CheckForVolumeUpDownUpDown\<close>, at most 3 after
  \<^verbatim>\<open>SetKbdHistoryIndex\<close>, and so at most 3 after any sequence of accepted events handled from
  the initial state.
\<close>

theorem Current_Index_in_range:
  "Current_Index (initial_state screens) = 0
   \<and> Current_Index (snd (GetAvailableKbdHistoryIndex dwCurrentTime s)) \<le> 3
   \<and> Current_Index (snd (CheckForVolumeUpDownUpDown s)) = 0
   \<and> Current_Index (fst (SetKbdHistoryIndex dwCurrentTime vkKey s)) \<le> 3
   \<and> Current_Index (fst (process_events es (initial_state screens))) \<le> 3"
proof -
  have "Current_Index (initial_state screens) \<le> 3"
    by (simp add: initial_state_def)
  then have "Current_Index (fst (process_events es (initial_state screens))) \<le> 3"
    by (rule process_events_cursor_le_3)
  moreover have "Current_Index (snd (GetAvailableKbdHistoryIndex dwCurrentTime s)) \<le> 3"
    by (simp add: GetAvailableKbdHistoryIndex_returns_cursor GetAvailableKbdHistoryIndex_le_3)
  moreover have "Current_Index (snd (CheckForVolumeUpDownUpDown s)) = 0"
    by (simp add: CheckForVolumeUpDownUpDown_def Let_def)
  moreover have "Current_Index (initial_state screens) = 0"
    by (simp add: initial_state_def)
  ultimately show ?thesis
    by (simp add: SetKbdHistoryIndex_cursor_le_3)
qed

text \<open>The definitions that a run on concrete events unfolds.\<close>

lemmas run_simps = initial_state_def SetKbdHistoryIndex_def GetAvailableKbdHistoryIndex_def
  CheckForVolumeUpDownUpDown_def VK_VOLUME_UP_def VK_VOLUME_DOWN_def Let_def wf_state_def

subsection \<open>One accepted event\<close>

text \<open>
  C2: for every accepted event, \<^verbatim>\<open>GetAvailableKbdHistoryIndex\<close> takes the time elapsed since the
  previous accepted event (the 64-bit difference of the two tick counts, which is their
  distance whenever the clock has not gone backwards) and records the new time. If the
  elapsed time is strictly greater than 500 the cursor becomes 0; otherwise it becomes
  cursor + 1, or 0 when cursor + 1 exceeds 3. It returns the updated cursor, and
  \<^verbatim>\<open>SetKbdHistoryIndex\<close> writes the key of the event into the buffer slot at that index.
\<close>

theorem SetKbdHistoryIndex_debounce:
  "Last_Volume_Event (snd (GetAvailableKbdHistoryIndex dwCurrentTime s)) = dwCurrentTime
   \<and> Current_Index (snd (GetAvailableKbdHistoryIndex dwCurrentTime s))
       = (if dwCurrentTime - Last_Volume_Event s > 500 then 0
          else if 3 < unat (Current_Index s) + 1 then 0
          else Current_Index s + 1)
   \<and> fst (GetAvailableKbdHistoryIndex dwCurrentTime s)
       = Current_Index (snd (GetAvailableKbdHistoryIndex dwCurrentTime s))
   \<and> Volume_Event_History (fst (SetKbdHistoryIndex dwCurrentTime vkKey s))
       = (Volume_Event_History s)[unat (fst (GetAvailableKbdHistoryIndex dwCurrentTime s)) := vkKey]
   \<and> Last_Volume_Event (fst (SetKbdHistoryIndex dwCurrentTime vkKey s)) = dwCurrentTime
   \<and> (Last_Volume_Event s \<le> dwCurrentTime \<longrightarrow>
        unat (dwCurrentTime - Last_Volume_Event s) = unat dwCurrentTime - unat (Last_Volume_Event s))"
proof -
  have "Current_Index (snd (GetAvailableKbdHistoryIndex dwCurrentTime s))
       = (if dwCurrentTime - Last_Volume_Event s > 500 then 0
          else if Current_Index s + 1 > 3 then 0 else Current_Index s + 1)"
    by (simp add: GetAvailableKbdHistoryIndex_def Let_def)
  also have "\<dots> = (if dwCurrentTime - Last_Volume_Event s > 500 then 0
          else if 3 < unat (Current_Index s) + 1 then 0
          else Current_Index s + 1)"
    using increment_then_wrap [of "Current_Index s"] by simp
  finally have cursor: "Current_Index (snd (GetAvailableKbdHistoryIndex dwCurrentTime s))
       = (if dwCurrentTime - Last_Volume_Event s > 500 then 0
          else if 3 < unat (Current_Index s) + 1 then 0
          else Current_Index s + 1)" .
  have elapsed: "Last_Volume_Event s \<le> dwCurrentTime \<longrightarrow>
        unat (dwCurrentTime - Last_Volume_Event s) = unat dwCurrentTime - unat (Last_Volume_Event s)"
    by (simp add: unat_sub)
  from cursor elapsed show ?thesis
    by (simp add: GetAvailableKbdHistoryIndex_frame GetAvailableKbdHistoryIndex_returns_cursor
        SetKbdHistoryIndex_history SetKbdHistoryIndex_time)
qed

theorem SetKbdHistoryIndex_debounce_witness:
  "Last_Volume_Event (fst (process_events [(1000, VK_VOLUME_UP), (1100, VK_VOLUME_DOWN),
       (1200, VK_VOLUME_UP)] (initial_state []))) \<le> 1300
   \<and> unat ((1300 :: DWORD64) - Last_Volume_Event (fst (process_events [(1000, VK_VOLUME_UP),
       (1100, VK_VOLUME_DOWN), (1200, VK_VOLUME_UP)] (initial_state [])))) = 1300 - 1200
   \<and> fst (GetAvailableKbdHistoryIndex 1300 (fst (process_events [(1000, VK_VOLUME_UP),
       (1100, VK_VOLUME_DOWN), (1200, VK_VOLUME_UP)] (initial_state [])))) = 3
   \<and> Volume_Event_History (fst (SetKbdHistoryIndex 1300 VK_VOLUME_DOWN
       (fst (process_events [(1000, VK_VOLUME_UP), (1100, VK_VOLUME_DOWN), (1200, VK_VOLUME_UP)]
          (initial_state [])))))
       = [VK_VOLUME_UP, VK_VOLUME_DOWN, VK_VOLUME_UP, VK_VOLUME_DOWN]"
  using SetKbdHistoryIndex_debounce [of 1300 "fst (process_events [(1000, VK_VOLUME_UP),
       (1100, VK_VOLUME_DOWN), (1200, VK_VOLUME_UP)] (initial_state []))" VK_VOLUME_DOWN]
  by (simp add: run_simps)

text \<open>
  C10: for every accepted event exactly one slot of the four-slot buffer is written, the one
  at the index returned by \<^verbatim>\<open>GetAvailableKbdHistoryIndex\<close>; that index is inside the buffer,
  the slot holds the key of the event afterwards, and the other three slots keep the values
  they had, tags of earlier cycles included.
\<close>

theorem SetKbdHistoryIndex_writes_one_slot:
  assumes "wf_state s"
  shows "unat (fst (GetAvailableKbdHistoryIndex dwCurrentTime s)) < 4
   \<and> length (Volume_Event_History (fst (SetKbdHistoryIndex dwCurrentTime vkKey s))) = 4
   \<and> Volume_Event_History (fst (SetKbdHistoryIndex dwCurrentTime vkKey s))
        ! unat (fst (GetAvailableKbdHistoryIndex dwCurrentTime s)) = vkKey
   \<and> (\<forall>j < 4. j \<noteq> unat (fst (GetAvailableKbdHistoryIndex dwCurrentTime s)) \<longrightarrow>
          Volume_Event_History (fst (SetKbdHistoryIndex dwCurrentTime vkKey s)) ! j
            = Volume_Event_History s ! j)"
proof -
  have "fst (GetAvailableKbdHistoryIndex dwCurrentTime s) \<le> 3"
    by (rule GetAvailableKbdHistoryIndex_le_3)
  then have "unat (fst (GetAvailableKbdHistoryIndex dwCurrentTime s)) \<le> 3"
    by (simp add: word_le_nat_alt)
  with assms show ?thesis
    by (simp add: wf_state_def SetKbdHistoryIndex_history)
qed

theorem SetKbdHistoryIndex_writes_one_slot_witness:
  "wf_state (fst (process_events [(1000, VK_VOLUME_UP), (1100, VK_VOLUME_DOWN), (1200, VK_VOLUME_UP),
                                  (1300, VK_VOLUME_DOWN)] (initial_state [''TOUCH0''])))
   \<and> Volume_Event_History (fst (process_events [(1000, VK_VOLUME_UP), (1100, VK_VOLUME_DOWN),
          (1200, VK_VOLUME_UP), (1300, VK_VOLUME_DOWN)] (initial_state [''TOUCH0''])))
       = [VK_VOLUME_UP, VK_VOLUME_DOWN, VK_VOLUME_UP, VK_VOLUME_DOWN]
   \<and> unat (fst (GetAvailableKbdHistoryIndex 2000
         (fst (process_events [(1000, VK_VOLUME_UP), (1100, VK_VOLUME_DOWN), (1200, VK_VOLUME_UP),
                               (1300, VK_VOLUME_DOWN)] (initial_state [''TOUCH0'']))))) = 0
   \<and> Volume_Event_History (fst (SetKbdHistoryIndex 2000 VK_VOLUME_DOWN
         (fst (process_events [(1000, VK_VOLUME_UP), (1100, VK_VOLUME_DOWN), (1200, VK_VOLUME_UP),
                               (1300, VK_VOLUME_DOWN)] (initial_state [''TOUCH0''])))))
       = [VK_VOLUME_DOWN, VK_VOLUME_DOWN, VK_VOLUME_UP, VK_VOLUME_DOWN]"
  using SetKbdHistoryIndex_writes_one_slot [of "fst (process_events [(1000, VK_VOLUME_UP), (1100, VK_VOLUME_DOWN), (1200, VK_VOLUME_UP),
                               (1300, VK_VOLUME_DOWN)] (initial_state [''TOUCH0'']))" 2000 VK_VOLUME_DOWN]
  by (simp add: run_simps)

subsection \<open>The write to slot 3\<close>

text \<open>
  C1: when an event is written to slot 3 and the buffer then reads UP, DOWN, UP, DOWN,
  \<^verbatim>\<open>SetKbdHistoryIndex\<close> toggles \<^verbatim>\<open>lock_enabled\<close> once, calls \<^verbatim>\<open>ToggleTouchDevice\<close> once for
  every entry of \<^verbatim>\<open>g_TouchScreens\<close>, in order, and then \<^verbatim>\<open>SoundEffect\<close> once, each with the flag
  \<^verbatim>\<open>!lock_enabled\<close> of the new lock state: locking disables the devices and plays
  \<open>Speech Off.wav\<close>, unlocking enables them and plays \<open>Speech On.wav\<close>. (The buffer of the
  resulting state is the buffer at the write: the matcher does not change it.)
\<close>

theorem SetKbdHistoryIndex_match_toggles_lock:
  assumes "fst (GetAvailableKbdHistoryIndex dwCurrentTime s) = 3"
      and "Volume_Event_History (fst (SetKbdHistoryIndex dwCurrentTime vkKey s))
             = [VK_VOLUME_UP, VK_VOLUME_DOWN, VK_VOLUME_UP, VK_VOLUME_DOWN]"
  shows "lock_enabled (fst (SetKbdHistoryIndex dwCurrentTime vkKey s))
           = (if lock_enabled s = 0 then 1 else 0)
   \<and> snd (SetKbdHistoryIndex dwCurrentTime vkKey s)
       = map (\<lambda>screen. ToggleTouchDevice screen
                 (lock_enabled (fst (SetKbdHistoryIndex dwCurrentTime vkKey s)) = 0))
             (g_TouchScreens s)
         @ [SoundEffect (lock_enabled (fst (SetKbdHistoryIndex dwCurrentTime vkKey s)) = 0)]
   \<and> ToggleTouchDevice_option (lock_enabled (fst (SetKbdHistoryIndex dwCurrentTime vkKey s)) = 0)
       = (if lock_enabled s = 0 then ''/disable-device'' else ''/enable-device'')
   \<and> SoundEffect_soundFile (lock_enabled (fst (SetKbdHistoryIndex dwCurrentTime vkKey s)) = 0)
       = (if lock_enabled s = 0 then Media_path @ ''Speech Off.wav''
          else Media_path @ ''Speech On.wav'')"
proof -
  let ?h = "(Volume_Event_History s)[3 := vkKey]"
  from assms have "?h = [VK_VOLUME_UP, VK_VOLUME_DOWN, VK_VOLUME_UP, VK_VOLUME_DOWN]"
    by (simp add: SetKbdHistoryIndex_history)
  then have "?h ! 0 = VK_VOLUME_UP \<and> ?h ! 1 = VK_VOLUME_DOWN \<and> ?h ! 2 = VK_VOLUME_UP \<and> ?h ! 3 = VK_VOLUME_DOWN"
    by simp
  with assms(1) show ?thesis
    by (simp add: SetKbdHistoryIndex_def CheckForVolumeUpDownUpDown_def Let_def split_beta
        GetAvailableKbdHistoryIndex_frame ToggleTouchDevice_option_def SoundEffect_soundFile_def)
qed

theorem SetKbdHistoryIndex_match_toggles_lock_witness:
  "fst (GetAvailableKbdHistoryIndex 1300
          (fst (process_events [(1000, VK_VOLUME_UP), (1100, VK_VOLUME_DOWN), (1200, VK_VOLUME_UP)]
                 (initial_state [''TOUCH0''])))) = 3
   \<and> SetKbdHistoryIndex 1300 VK_VOLUME_DOWN
          (fst (process_events [(1000, VK_VOLUME_UP), (1100, VK_VOLUME_DOWN), (1200, VK_VOLUME_UP)]
                 (initial_state [''TOUCH0''])))
       = (\<lparr>Volume_Event_History = [VK_VOLUME_UP, VK_VOLUME_DOWN, VK_VOLUME_UP, VK_VOLUME_DOWN],
           Current_Index = 0, Last_Volume_Event = 1300, lock_enabled = 1,
           g_TouchScreens = [''TOUCH0'']\<rparr>,
          [ToggleTouchDevice ''TOUCH0'' False, SoundEffect False])
   \<and> ToggleTouchDevice_option False = ''/disable-device''
   \<and> SoundEffect_soundFile False = Media_path @ ''Speech Off.wav''"
  using SetKbdHistoryIndex_match_toggles_lock [of 1300 "fst (process_events [(1000, VK_VOLUME_UP), (1100, VK_VOLUME_DOWN), (1200, VK_VOLUME_UP)]
                 (initial_state [''TOUCH0'']))" VK_VOLUME_DOWN]
  by (simp add: run_simps)

text \<open>
  C9: when an event is written to slot 3 and the buffer then differs from UP, DOWN, UP, DOWN,
  the lock state is unchanged, no request is made, and the cursor is 0 all the same.
\<close>

theorem SetKbdHistoryIndex_no_match:
  assumes "wf_state s"
      and "fst (GetAvailableKbdHistoryIndex dwCurrentTime s) = 3"
      and "Volume_Event_History (fst (SetKbdHistoryIndex dwCurrentTime vkKey s))
             \<noteq> [VK_VOLUME_UP, VK_VOLUME_DOWN, VK_VOLUME_UP, VK_VOLUME_DOWN]"
  shows "lock_enabled (fst (SetKbdHistoryIndex dwCurrentTime vkKey s)) = lock_enabled s
   \<and> snd (SetKbdHistoryIndex dwCurrentTime vkKey s) = []
   \<and> Current_Index (fst (SetKbdHistoryIndex dwCurrentTime vkKey s)) = 0"
proof -
  let ?h = "(Volume_Event_History s)[3 := vkKey]"
  from assms(2) have h: "Volume_Event_History (fst (SetKbdHistoryIndex dwCurrentTime vkKey s)) = ?h"
    by (simp add: SetKbdHistoryIndex_history)
  from assms(1) have "length ?h = 4"
    by (simp add: wf_state_def)
  from list4_eq [OF this] assms(3) h
  have "\<not> (?h ! 0 = VK_VOLUME_UP \<and> ?h ! 1 = VK_VOLUME_DOWN \<and> ?h ! 2 = VK_VOLUME_UP \<and> ?h ! 3 = VK_VOLUME_DOWN)"
    by simp
  with assms(2) show ?thesis
    by (simp add: SetKbdHistoryIndex_def CheckForVolumeUpDownUpDown_def Let_def split_beta
        GetAvailableKbdHistoryIndex_frame)
qed

theorem SetKbdHistoryIndex_no_match_witness:
  "wf_state (fst (process_events [(1000, VK_VOLUME_UP), (1100, VK_VOLUME_UP), (1200, VK_VOLUME_DOWN)]
                 (initial_state [''TOUCH0''])))
   \<and> fst (GetAvailableKbdHistoryIndex 1300
          (fst (process_events [(1000, VK_VOLUME_UP), (1100, VK_VOLUME_UP), (1200, VK_VOLUME_DOWN)]
                 (initial_state [''TOUCH0''])))) = 3
   \<and> SetKbdHistoryIndex 1300 VK_VOLUME_DOWN
          (fst (process_events [(1000, VK_VOLUME_UP), (1100, VK_VOLUME_UP), (1200, VK_VOLUME_DOWN)]
                 (initial_state [''TOUCH0''])))
       = (\<lparr>Volume_Event_History = [VK_VOLUME_UP, VK_VOLUME_UP, VK_VOLUME_DOWN, VK_VOLUME_DOWN],
           Current_Index = 0, Last_Volume_Event = 1300, lock_enabled = 0,
           g_TouchScreens = [''TOUCH0'']\<rparr>, [])"
  using SetKbdHistoryIndex_no_match [of "fst (process_events [(1000, VK_VOLUME_UP), (1100, VK_VOLUME_UP), (1200, VK_VOLUME_DOWN)]
                 (initial_state [''TOUCH0'']))" 1300 VK_VOLUME_DOWN]
  by (simp add: run_simps)

subsection \<open>The cycle after a call of the matcher\<close>

text \<open>
  \<^verbatim>\<open>CheckForVolumeUpDownUpDown\<close> sets the cursor to 0, and \<^verbatim>\<open>GetAvailableKbdHistoryIndex\<close>
  increments the cursor before the write. An event that follows a call of the matcher within
  500 ms is therefore written to slot 1, from any state.
\<close>

lemma GetAvailableKbdHistoryIndex_after_matcher:
  "dwCurrentTime - Last_Volume_Event s \<le> 500 \<Longrightarrow>
     fst (GetAvailableKbdHistoryIndex dwCurrentTime (snd (CheckForVolumeUpDownUpDown s))) = 1"
  by (simp add: GetAvailableKbdHistoryIndex_def CheckForVolumeUpDownUpDown_def Let_def not_less)

text \<open>
  C3 says that the event accepted right after a call of the matcher is written to slot 0,
  whatever its gap to the previous event. At the input below, with any registry, the code
  does otherwise: the matcher leaves the cursor at 0, and the next call of
  \<^verbatim>\<open>GetAvailableKbdHistoryIndex\<close>, 100 ms later, increments it before the write. The fifth
  key goes to slot 1 and slot 0 keeps the tag of the first event. The wrap at line 77, which would send the event after slot 3 to
  slot 0, is never reached.
\<close>

theorem event_after_matcher_written_to_slot_1:
  "slots_written [(1000, VK_VOLUME_UP), (1100, VK_VOLUME_DOWN), (1200, VK_VOLUME_UP),
                  (1300, VK_VOLUME_DOWN), (1400, VK_VOLUME_UP)] (initial_state screens)
     = [0, 1, 2, 3, 1]
   \<and> Current_Index (fst (process_events [(1000, VK_VOLUME_UP), (1100, VK_VOLUME_DOWN),
         (1200, VK_VOLUME_UP), (1300, VK_VOLUME_DOWN)] (initial_state screens))) = 0
   \<and> Volume_Event_History (fst (process_events [(1000, VK_VOLUME_UP), (1100, VK_VOLUME_DOWN),
         (1200, VK_VOLUME_UP), (1300, VK_VOLUME_DOWN), (1400, VK_VOLUME_UP)]
         (initial_state screens)))
       = [VK_VOLUME_UP, VK_VOLUME_UP, VK_VOLUME_UP, VK_VOLUME_DOWN]"
  by (simp add: run_simps)

text \<open>
  C5 says that the matcher is not called before the fourth accepted event after a reset of
  the cursor to 0. At the input below, seven presses 100 ms apart, the matcher is called at
  the fourth event (slot 3) and resets the cursor; the next three events are written to
  slots 1, 2 and 3, so the matcher is called again at the third event after that reset.
\<close>

theorem matcher_invoked_after_three_events:
  "slots_written [(1000, VK_VOLUME_UP), (1100, VK_VOLUME_UP), (1200, VK_VOLUME_UP),
                  (1300, VK_VOLUME_UP), (1400, VK_VOLUME_UP), (1500, VK_VOLUME_UP),
                  (1600, VK_VOLUME_UP)] (initial_state screens)
     = [0, 1, 2, 3, 1, 2, 3]
   \<and> Current_Index (fst (process_events [(1000, VK_VOLUME_UP), (1100, VK_VOLUME_UP),
         (1200, VK_VOLUME_UP), (1300, VK_VOLUME_UP)] (initial_state screens))) = 0"
  by (simp add: run_simps)

text \<open>
  C4 says that the lock state is toggled only when the four events whose tags fill slots 0
  to 3 were accepted one after the other, so that about 1500 ms at most separate the first
  from the last. At the input below, seven presses 500 ms apart, the lock is toggled at the
  fourth event and again at the seventh, where slots 1 to 3 hold the tags of events 5, 6 and
  7 and slot 0 still holds the tag of event 1, accepted 3000 ms earlier.
\<close>

theorem stale_slot_0_completes_gesture:
  "slots_written [(1000, VK_VOLUME_UP), (1500, VK_VOLUME_DOWN), (2000, VK_VOLUME_UP),
                  (2500, VK_VOLUME_DOWN), (3000, VK_VOLUME_DOWN), (3500, VK_VOLUME_UP),
                  (4000, VK_VOLUME_DOWN)] (initial_state screens)
     = [0, 1, 2, 3, 1, 2, 3]
   \<and> process_events [(1000, VK_VOLUME_UP), (1500, VK_VOLUME_DOWN), (2000, VK_VOLUME_UP),
                  (2500, VK_VOLUME_DOWN), (3000, VK_VOLUME_DOWN), (3500, VK_VOLUME_UP)]
        (initial_state screens)
     = (\<lparr>Volume_Event_History = [VK_VOLUME_UP, VK_VOLUME_DOWN, VK_VOLUME_UP, VK_VOLUME_DOWN],
         Current_Index = 2, Last_Volume_Event = 3500, lock_enabled = 1,
         g_TouchScreens = screens\<rparr>,
        map (\<lambda>screen. ToggleTouchDevice screen False) screens @ [SoundEffect False])
   \<and> process_events [(1000, VK_VOLUME_UP), (1500, VK_VOLUME_DOWN), (2000, VK_VOLUME_UP),
                  (2500, VK_VOLUME_DOWN), (3000, VK_VOLUME_DOWN), (3500, VK_VOLUME_UP),
                  (4000, VK_VOLUME_DOWN)] (initial_state screens)
     = (\<lparr>Volume_Event_History = [VK_VOLUME_UP, VK_VOLUME_DOWN, VK_VOLUME_UP, VK_VOLUME_DOWN],
         Current_Index = 0, Last_Volume_Event = 4000, lock_enabled = 0,
         g_TouchScreens = screens\<rparr>,
        map (\<lambda>screen. ToggleTouchDevice screen False) screens @ [SoundEffect False]
          @ map (\<lambda>screen. ToggleTouchDevice screen True) screens @ [SoundEffect True])"
  by (simp add: run_simps)

text \<open>
  C6 says that the gesture UP, DOWN, UP, DOWN performed twice in a row, eight events each
  within 500 ms of the previous one, toggles the lock state twice and makes two rounds of
  requests. At the input below the code toggles once: events 5 to 8 are written to slots 1,
  2, 3 and 1, the buffer reads UP, UP, DOWN, UP at the second call of the matcher, and the
  lock stays on with one round of requests made.
\<close>

theorem double_gesture_toggles_once:
  "process_events [(1000, VK_VOLUME_UP), (1100, VK_VOLUME_DOWN), (1200, VK_VOLUME_UP),
                   (1300, VK_VOLUME_DOWN), (1400, VK_VOLUME_UP), (1500, VK_VOLUME_DOWN),
                   (1600, VK_VOLUME_UP), (1700, VK_VOLUME_DOWN)] (initial_state screens)
     = (\<lparr>Volume_Event_History = [VK_VOLUME_UP, VK_VOLUME_DOWN, VK_VOLUME_DOWN, VK_VOLUME_UP],
         Current_Index = 1, Last_Volume_Event = 1700, lock_enabled = 1,
         g_TouchScreens = screens\<rparr>,
        map (\<lambda>screen. ToggleTouchDevice screen False) screens @ [SoundEffect False])
   \<and> slots_written [(1000, VK_VOLUME_UP), (1100, VK_VOLUME_DOWN), (1200, VK_VOLUME_UP),
                   (1300, VK_VOLUME_DOWN), (1400, VK_VOLUME_UP), (1500, VK_VOLUME_DOWN),
                   (1600, VK_VOLUME_UP), (1700, VK_VOLUME_DOWN)] (initial_state screens)
     = [0, 1, 2, 3, 1, 2, 3, 1]"
  by (simp add: run_simps)

end
